theory Spec2Isabelle
  imports Main
begin

section \<open>The self-healing pipeline of \<open>handle_bad_data/notebook.ipynb\<close>\<close>

text \<open>
  The notebook reads two collections of CSV lines (new data, previously invalid records)
  with a declared schema, unions them, separates the rows by the \<open>_corrupt_record\<close>
  column and overwrites two outputs (\<open>good\<close>, \<open>bad\<close>). Every cell of the notebook is a
  definition below, under the name the notebook gives it.

  The notebook calls Spark's CSV reader in its default PERMISSIVE mode. The reader is
  library code; it is written out here as far as the notebook relies on it and as its own
  recorded output shows it (\<open>combined_df.show()\<close>): the line is cut into tokens, each
  token is converted to the type of its column, a column whose conversion fails is NULL,
  and a line with any failure, or with a token count other than the column count, has its
  complete text in \<open>_corrupt_record\<close>. The tokenizer itself (quotes, escapes) is a
  parameter of the model: every general theorem holds for every tokenizer. \<open>split_comma\<close>
  is what it computes on lines without quote, escape or line-break characters, and is used
  for the concrete lines of the notebook. Strings are byte strings.

  A record is one line of text, as every string of the notebook is. Two things the
  library does beyond that are not written out: on an element that holds a line break
  the reader keeps the text of the record without its line end, and the integer
  conversion also reads decimal digits outside ASCII. The properties that depend on
  either are stated for records of printable ASCII characters (\<open>printable\<close>).
\<close>

subsection \<open>Cell 1: the schema\<close>

datatype dataType = IntegerType | StringType

datatype structField = StructField (fname: string) (ftype: dataType) (nullable: bool)

type_synonym structType = "structField list"

definition schema :: structType where
  "schema =
     [StructField ''id'' IntegerType True,
      StructField ''name'' StringType True,
      StructField ''age'' IntegerType True,
      StructField ''_corrupt_record'' StringType True]"

text \<open>The data columns: the schema without the column that receives malformed lines.\<close>

definition actual_schema :: "structType \<Rightarrow> structType" where
  "actual_schema sch = filter (\<lambda>f. fname f \<noteq> ''_corrupt_record'') sch"

text \<open>
  The reader of a collection of strings turns every column of a user-given schema
  nullable before it parses.
\<close>

definition as_nullable :: "structType \<Rightarrow> structType" where
  "as_nullable sch = map (\<lambda>f. StructField (fname f) (ftype f) True) sch"

subsection \<open>Values and conversion of one token\<close>

datatype datum = IntV int | StrV string

text \<open>A cell of a row: \<open>None\<close> is SQL NULL.\<close>

type_synonym cell = "datum option"

datatype decode_error = NumberFormat | NullInNotNullable | MissingToken

definition digit_val :: "char \<Rightarrow> int option" where
  "digit_val c = (if c \<in> set ''0123456789'' then Some (of_char c - 48) else None)"

fun digits_to_int :: "int \<Rightarrow> string \<Rightarrow> int option" where
  "digits_to_int acc [] = Some acc"
| "digits_to_int acc (c # cs) =
     (case digit_val c of None \<Rightarrow> None | Some d \<Rightarrow> digits_to_int (10 * acc + d) cs)"

text \<open>
  The integer conversion of a token (\<open>toInt\<close>) on ASCII text: an optional sign, at
  least one digit \<open>0\<close> to \<open>9\<close>, and a value that fits 32 bits; anything else raises,
  which is \<open>None\<close> here.
\<close>

definition to_int :: "string \<Rightarrow> int option" where
  "to_int s =
     (let (neg, ds) = (case s of
                         [] \<Rightarrow> (False, s)
                       | c # r \<Rightarrow> if c = CHR ''-'' then (True, r)
                                  else if c = CHR ''+'' then (False, r) else (False, s))
      in if ds = [] then None
         else case digits_to_int 0 ds of
                None \<Rightarrow> None
              | Some n \<Rightarrow>
                  let v = (if neg then - n else n)
                  in if - 2147483648 \<le> v \<and> v \<le> 2147483647 then Some v else None)"

text \<open>
  The converter of one column: the empty token is NULL (an error in a column that is not
  nullable), any other token is converted by the column's type.
\<close>

definition make_converter :: "structField \<Rightarrow> string \<Rightarrow> decode_error + cell" where
  "make_converter f d =
     (if d = [] then (if nullable f then Inr None else Inl NullInNotNullable)
      else case ftype f of
             IntegerType \<Rightarrow>
               (case to_int d of None \<Rightarrow> Inl NumberFormat | Some i \<Rightarrow> Inr (Some (IntV i)))
           | StringType \<Rightarrow> Inr (Some (StrV d)))"

subsection \<open>Parsing one line in PERMISSIVE mode\<close>

text \<open>
  The conversion loop over the columns: column \<open>i\<close> takes token \<open>i\<close>; a column with no
  token left raises (and becomes NULL); tokens beyond the last column are ignored.
\<close>

fun convert_fields :: "structType \<Rightarrow> string list \<Rightarrow> (decode_error + cell) list" where
  "convert_fields [] ts = []"
| "convert_fields (f # fs) [] = Inl MissingToken # convert_fields fs []"
| "convert_fields (f # fs) (t # ts) = make_converter f t # convert_fields fs ts"

definition cell_of :: "decode_error + cell \<Rightarrow> cell" where
  "cell_of r = (case r of Inl e \<Rightarrow> None | Inr v \<Rightarrow> v)"

text \<open>
  A decoded row: the data columns in schema order and the \<open>_corrupt_record\<close> column.
  For a record that is one line, the text the reader keeps for a malformed record is the
  line.
\<close>

record row =
  cols :: "cell list"
  corrupt_record :: "string option"

definition parse :: "(string \<Rightarrow> string list) \<Rightarrow> structType \<Rightarrow> string \<Rightarrow> row" where
  "parse tokenizer sch line =
     (let actual = actual_schema sch;
          tokens = tokenizer line;
          rs = convert_fields actual tokens;
          malformed = (length tokens \<noteq> length actual \<or> list_ex isl rs)
      in \<lparr>cols = map cell_of rs,
          corrupt_record = (if malformed then Some line else None)\<rparr>)"

fun split_comma :: "string \<Rightarrow> string list" where
  "split_comma [] = [[]]"
| "split_comma (c # cs) =
     (if c = CHR '','' then [] # split_comma cs
      else case split_comma cs of
             [] \<Rightarrow> [[c]]
           | t # ts \<Rightarrow> (c # t) # ts)"

subsection \<open>Cell 2: the test data\<close>

definition new_data_rdd :: "string list" where
  "new_data_rdd =
     [''1,John Doe,30'',
      ''2,Jane Smith,25'',
      ''3,Bob Johnson,35'',
      ''4,Alice Johnson,twenty'']"

definition previous_invalid_rdd :: "string list" where
  "previous_invalid_rdd = [''5,45,Charlie Brown'']"

subsection \<open>Cell 3: reading with the schema, and the union\<close>

text \<open>The reader skips the lines that are empty or hold spaces only.\<close>

definition nonblank :: "string \<Rightarrow> bool" where
  "nonblank line = list_ex (\<lambda>c. c \<noteq> CHR '' '') line"

definition csv :: "(string \<Rightarrow> string list) \<Rightarrow> structType \<Rightarrow> string list \<Rightarrow> row list" where
  "csv tokenizer sch lines = map (parse tokenizer (as_nullable sch)) (filter nonblank lines)"

definition union_df :: "row list \<Rightarrow> row list \<Rightarrow> row list" where
  "union_df a b = a @ b"

definition combined_df ::
  "(string \<Rightarrow> string list) \<Rightarrow> structType \<Rightarrow> string list \<Rightarrow> string list \<Rightarrow> row list" where
  "combined_df tokenizer sch new_rdd previous_rdd =
     union_df (csv tokenizer sch new_rdd) (csv tokenizer sch previous_rdd)"

subsection \<open>Cell 4: separating valid from invalid records\<close>

definition isNull :: "row \<Rightarrow> bool" where
  "isNull r = (corrupt_record r = None)"

definition isNotNull :: "row \<Rightarrow> bool" where
  "isNotNull r = (corrupt_record r \<noteq> None)"

text \<open>\<open>filter(isNull).drop("_corrupt_record")\<close>: the data columns of the rows kept.\<close>

definition valid_df :: "row list \<Rightarrow> cell list list" where
  "valid_df df = map cols (filter isNull df)"

text \<open>\<open>filter(isNotNull).select("_corrupt_record")\<close>: that one column of the rows kept.\<close>

definition invalid_df :: "row list \<Rightarrow> string option list" where
  "invalid_df df = map corrupt_record (filter isNotNull df)"

subsection \<open>Cell 6: writing the results\<close>

text \<open>
  The three output locations the notebook names. \<open>good\<close> is kept as typed rows (its
  rendering as CSV text with a header is not modelled), \<open>bad\<close> and \<open>bad_history\<close> as text
  lines.
\<close>

record storage =
  good :: "cell list list"
  bad :: "string list"
  bad_history :: "string list"

text \<open>The text writer: one line per row, the empty line for NULL.\<close>

definition write_text :: "string option list \<Rightarrow> string list" where
  "write_text vs = map (\<lambda>v. case v of None \<Rightarrow> [] | Some s \<Rightarrow> s) vs"

text \<open>
  A write that raises ends the cell: the statements after it do not run. What a failed
  overwrite leaves in its own target is up to the storage layer, so the fault carries it.
\<close>

datatype fault = GoodWriteFails "cell list list" | BadWriteFails "string list"

datatype outcome = Done | StoreError

text \<open>
  The two writes in the order of the cell, both in overwrite mode. The append to
  \<open>bad_history\<close> is a comment in the cell, so no statement writes that location.
\<close>

definition write_results ::
  "fault option \<Rightarrow> cell list list \<Rightarrow> string option list \<Rightarrow> storage \<Rightarrow> outcome \<times> storage" where
  "write_results flt valid invalid st =
     (case flt of
        Some (GoodWriteFails left) \<Rightarrow> (StoreError, st\<lparr>good := left\<rparr>)
      | Some (BadWriteFails left) \<Rightarrow> (StoreError, st\<lparr>good := valid, bad := left\<rparr>)
      | None \<Rightarrow> (Done, st\<lparr>good := valid, bad := write_text invalid\<rparr>))"

subsection \<open>One run of the pipeline\<close>

text \<open>
  The notebook fills \<open>previous_invalid_rdd\<close> with test data and says that production
  reads it from files: the records that failed in the previous run. A run therefore takes
  the lines of the \<open>bad\<close> output as the previously invalid records, and the new
  lines as its argument.
\<close>

definition run ::
  "(string \<Rightarrow> string list) \<Rightarrow> structType \<Rightarrow> fault option \<Rightarrow> string list \<Rightarrow> storage
     \<Rightarrow> outcome \<times> storage" where
  "run tokenizer sch flt new_rdd st =
     (let df = combined_df tokenizer sch new_rdd (bad st)
      in write_results flt (valid_df df) (invalid_df df) st)"

text \<open>The notebook as it stands: its schema, the comma tokenizer, no storage fault.\<close>

definition notebook :: "string list \<Rightarrow> storage \<Rightarrow> storage" where
  "notebook new_rdd st = snd (run split_comma schema None new_rdd st)"

subsection \<open>Predicates of the properties\<close>

text \<open>A token coerces in a column when the column's converter returns a value.\<close>

definition coerces :: "structField \<Rightarrow> string \<Rightarrow> bool" where
  "coerces f d = (\<not> isl (make_converter f d))"

text \<open>
  The value a token stands for, said without the converter: NULL for the empty token,
  the integer read from the token in an integer column, the token in a string column.
\<close>

definition coerced_value :: "structField \<Rightarrow> string \<Rightarrow> cell" where
  "coerced_value f d =
     (if d = [] then None
      else case ftype f of
             IntegerType \<Rightarrow> map_option IntV (to_int d)
           | StringType \<Rightarrow> Some (StrV d))"

definition all_fields_coerce :: "structType \<Rightarrow> string list \<Rightarrow> bool" where
  "all_fields_coerce sch ts = list_all (\<lambda>(f, d). coerces f d) (zip sch ts)"

definition nonnullable_fields_coerce :: "structType \<Rightarrow> string list \<Rightarrow> bool" where
  "nonnullable_fields_coerce sch ts =
     list_all (\<lambda>(f, d). nullable f \<or> coerces f d) (zip sch ts)"

definition violates_type :: "structType \<Rightarrow> string list \<Rightarrow> bool" where
  "violates_type sch ts = list_ex (\<lambda>(f, d). \<not> coerces f d) (zip sch ts)"


text \<open>The lines of an input that the reader decodes, by the side they fall on.\<close>

definition corrupt_line :: "(string \<Rightarrow> string list) \<Rightarrow> structType \<Rightarrow> string \<Rightarrow> bool" where
  "corrupt_line tokenizer sch line =
     (nonblank line \<and> isNotNull (parse tokenizer (as_nullable sch) line))"

definition valid_line :: "(string \<Rightarrow> string list) \<Rightarrow> structType \<Rightarrow> string \<Rightarrow> bool" where
  "valid_line tokenizer sch line =
     (nonblank line \<and> isNull (parse tokenizer (as_nullable sch) line))"

section \<open>Properties\<close>

subsection \<open>The parser\<close>


lemma convert_fields_isl:
  "list_ex isl (convert_fields sch ts) \<longleftrightarrow> length ts < length sch \<or> violates_type sch ts"
  by (induction sch ts rule: convert_fields.induct)
     (auto simp: violates_type_def coerces_def)

lemma coerces_cell_of: "coerces f d \<Longrightarrow> cell_of (make_converter f d) = coerced_value f d"
  by (auto simp: coerces_def make_converter_def cell_of_def coerced_value_def
      split: dataType.splits option.splits)

lemma convert_fields_coerced:
  "length ts = length sch \<Longrightarrow> all_fields_coerce sch ts \<Longrightarrow>
   map cell_of (convert_fields sch ts) = map (\<lambda>(f, d). coerced_value f d) (zip sch ts)"
  by (induction sch ts rule: convert_fields.induct)
     (auto simp: all_fields_coerce_def coerces_cell_of)





lemma violates_type_iff: "violates_type sch ts \<longleftrightarrow> \<not> all_fields_coerce sch ts"
  by (simp add: violates_type_def all_fields_coerce_def list_ex_iff list_all_iff split_def)

lemma corrupt_record_parse:
  "corrupt_record (parse tok sch line) =
     (if length (tok line) \<noteq> length (actual_schema sch)
         \<or> violates_type (actual_schema sch) (tok line)
      then Some line else None)"
  by (auto simp: parse_def Let_def convert_fields_isl)

lemma cols_parse:
  "cols (parse tok sch line) = map cell_of (convert_fields (actual_schema sch) (tok line))"
  by (simp add: parse_def Let_def)

lemma isNotNull_parse:
  "isNotNull (parse tok sch line) \<longleftrightarrow> corrupt_record (parse tok sch line) = Some line"
  by (simp add: isNotNull_def corrupt_record_parse)

lemma isNull_iff: "isNull r \<longleftrightarrow> \<not> isNotNull r"
  by (simp add: isNull_def isNotNull_def)

subsection \<open>The outputs of a run, line by line\<close>

lemma invalid_csv:
  "write_text (invalid_df (csv tok sch ls)) = filter (corrupt_line tok sch) ls"
  by (induction ls)
     (auto simp: write_text_def invalid_df_def csv_def corrupt_line_def isNotNull_parse)


lemma valid_csv:
  "valid_df (csv tok sch ls) =
     map (\<lambda>l. cols (parse tok (as_nullable sch) l)) (filter (valid_line tok sch) ls)"
  by (induction ls) (auto simp: valid_df_def csv_def valid_line_def)

lemma combined_df_csv: "combined_df tok sch new prev = csv tok sch (new @ prev)"
  by (simp add: combined_df_def union_df_def csv_def)

lemma run_ok:
  "run tok sch None new st =
     (Done, st\<lparr>good := map (\<lambda>l. cols (parse tok (as_nullable sch) l))
                          (filter (valid_line tok sch) (new @ bad st)),
                bad := filter (corrupt_line tok sch) (new @ bad st)\<rparr>)"
  by (simp add: run_def Let_def write_results_def combined_df_csv invalid_csv valid_csv)

lemma valid_not_corrupt: "valid_line tok sch l \<Longrightarrow> \<not> corrupt_line tok sch l"
  by (simp add: valid_line_def corrupt_line_def isNull_iff)

subsection \<open>The lines of the notebook, decoded\<close>

lemma corrupt_charlie: "corrupt_line split_comma schema ''5,45,Charlie Brown''"
  by code_simp

lemma corrupt_alice: "corrupt_line split_comma schema ''4,Alice Johnson,twenty''"
  by code_simp

lemma valid_john: "valid_line split_comma schema ''1,John Doe,30''"
  by code_simp

lemma not_valid_charlie: "\<not> valid_line split_comma schema ''5,45,Charlie Brown''"
  by code_simp

lemma not_valid_alice: "\<not> valid_line split_comma schema ''4,Alice Johnson,twenty''"
  by code_simp

lemma not_corrupt_john: "\<not> corrupt_line split_comma schema ''1,John Doe,30''"
  by code_simp

lemma valid_charlie_fixed: "valid_line split_comma schema ''5,Charlie Brown,45''"
  by code_simp

lemma cols_charlie_fixed:
  "cols (parse split_comma (as_nullable schema) ''5,Charlie Brown,45'') =
     [Some (IntV 5), Some (StrV ''Charlie Brown''), Some (IntV 45)]"
  by code_simp

lemma cols_john:
  "cols (parse split_comma (as_nullable schema) ''1,John Doe,30'') =
     [Some (IntV 1), Some (StrV ''John Doe''), Some (IntV 30)]"
  by code_simp

section \<open>The properties of the specification\<close>

text \<open>
  C1 (as the code has it). A line whose token count is the number of data columns and
  whose every token coerces to its column, nullable or not, is parsed to a Valid row
  whose columns are the coerced values. For the input \<open>["1,John,30", "2,Jane,twenty"]\<close>
  under the schema of the notebook the Valid output is the one row \<open>(1, John, 30)\<close> and
  the Corrupt output the one line \<open>2,Jane,twenty\<close>.
\<close>

theorem C1_all_fields_coerce_valid:
  "(length (tok line) = length (actual_schema sch)
      \<and> all_fields_coerce (actual_schema sch) (tok line)
    \<longrightarrow> parse tok sch line
         = \<lparr>cols = map (\<lambda>(f, d). coerced_value f d) (zip (actual_schema sch) (tok line)),
            corrupt_record = None\<rparr>)
   \<and> valid_df (csv split_comma schema [''1,John,30'', ''2,Jane,twenty''])
       = [[Some (IntV 1), Some (StrV ''John''), Some (IntV 30)]]
   \<and> write_text (invalid_df (csv split_comma schema [''1,John,30'', ''2,Jane,twenty'']))
       = [''2,Jane,twenty'']"
proof -
  have general: "parse tok sch line
         = \<lparr>cols = map (\<lambda>(f, d). coerced_value f d) (zip (actual_schema sch) (tok line)),
            corrupt_record = None\<rparr>"
    if "length (tok line) = length (actual_schema sch)"
      and "all_fields_coerce (actual_schema sch) (tok line)"
  proof -
    from that have "corrupt_record (parse tok sch line) = None"
      by (simp add: corrupt_record_parse violates_type_iff)
    moreover from that have "cols (parse tok sch line)
        = map (\<lambda>(f, d). coerced_value f d) (zip (actual_schema sch) (tok line))"
      by (simp add: cols_parse convert_fields_coerced)
    ultimately show ?thesis by simp
  qed
  have valid: "valid_df (csv split_comma schema [''1,John,30'', ''2,Jane,twenty''])
       = [[Some (IntV 1), Some (StrV ''John''), Some (IntV 30)]]"
    by code_simp
  have invalid:
    "write_text (invalid_df (csv split_comma schema [''1,John,30'', ''2,Jane,twenty'']))
       = [''2,Jane,twenty'']"
    by code_simp
  from general valid invalid show ?thesis by blast
qed

theorem C1_all_fields_coerce_valid_witness:
  "length (split_comma ''1,John Doe,30'') = length (actual_schema schema)
   \<and> all_fields_coerce (actual_schema schema) (split_comma ''1,John Doe,30'')
   \<and> parse split_comma schema ''1,John Doe,30''
       = \<lparr>cols = [Some (IntV 1), Some (StrV ''John Doe''), Some (IntV 30)],
          corrupt_record = None\<rparr>"
proof -
  have len: "length (split_comma ''1,John Doe,30'') = length (actual_schema schema)"
    by code_simp
  have ok: "all_fields_coerce (actual_schema schema) (split_comma ''1,John Doe,30'')"
    by code_simp
  have vals: "map (\<lambda>(f, d). coerced_value f d)
                (zip (actual_schema schema) (split_comma ''1,John Doe,30''))
              = [Some (IntV 1), Some (StrV ''John Doe''), Some (IntV 30)]"
    by code_simp
  from C1_all_fields_coerce_valid [of split_comma "''1,John Doe,30''" schema] len ok
  have "parse split_comma schema ''1,John Doe,30''
         = \<lparr>cols = map (\<lambda>(f, d). coerced_value f d)
                     (zip (actual_schema schema) (split_comma ''1,John Doe,30'')),
            corrupt_record = None\<rparr>"
    by blast
  with len ok vals show ?thesis by simp
qed

text \<open>
  C1 as stated fails on the line \<open>4,Alice Johnson,twenty\<close> of the notebook: it has three
  tokens for three data columns, the schema has no column that is not nullable, so every
  non-nullable field coerces, and yet the row is Corrupt.
\<close>

theorem C1_nullable_field_counterexample:
  "length (split_comma ''4,Alice Johnson,twenty'') = length (actual_schema schema)
   \<and> nonnullable_fields_coerce (actual_schema schema) (split_comma ''4,Alice Johnson,twenty'')
   \<and> isNotNull (parse split_comma schema ''4,Alice Johnson,twenty'')
   \<and> corrupt_record (parse split_comma schema ''4,Alice Johnson,twenty'')
       = Some ''4,Alice Johnson,twenty''"
  by code_simp




text \<open>
  C3. Two consecutive runs without new input leave the same pending set: the \<open>bad\<close>
  output after the second run is the \<open>bad\<close> output after the first, line for line, with
  nothing duplicated and nothing lost.
\<close>

theorem C3_rerun_same_pending:
  "bad (snd (run tok sch None [] (snd (run tok sch None [] st))))
     = bad (snd (run tok sch None [] st))"
  by (simp add: run_ok)

theorem C3_rerun_same_pending_witness:
  "bad (snd (run split_comma schema None []
          (snd (run split_comma schema None []
             \<lparr>good = [], bad = [''5,45,Charlie Brown'', ''1,John Doe,30''], bad_history = []\<rparr>))))
     = [''5,45,Charlie Brown'']"
proof -
  have "bad (snd (run split_comma schema None []
          \<lparr>good = [], bad = [''5,45,Charlie Brown'', ''1,John Doe,30''], bad_history = []\<rparr>))
        = [''5,45,Charlie Brown'']"
    using corrupt_charlie not_corrupt_john by (simp add: run_ok)
  with C3_rerun_same_pending [of split_comma schema
      "\<lparr>good = [], bad = [''5,45,Charlie Brown'', ''1,John Doe,30''], bad_history = []\<rparr>"]
  show ?thesis by simp
qed

text \<open>
  C4 (as the code has it). When the write of the valid output fails, the run ends with
  a store error and the pending set is the one before the run: no Corrupt output is
  written. When the later write of the quarantine output fails, the run ends with a store
  error and the Valid output of that run is already written: the earlier write is not
  undone.
\<close>

theorem C4_failed_write_effects:
  "fst (run tok sch (Some (GoodWriteFails left_good)) new st) = StoreError
   \<and> bad (snd (run tok sch (Some (GoodWriteFails left_good)) new st)) = bad st
   \<and> fst (run tok sch (Some (BadWriteFails left_bad)) new st) = StoreError
   \<and> good (snd (run tok sch (Some (BadWriteFails left_bad)) new st))
       = valid_df (combined_df tok sch new (bad st))"
  by (simp add: run_def Let_def write_results_def)

theorem C4_failed_write_effects_witness:
  "bad (snd (run split_comma schema (Some (GoodWriteFails [])) [''1,John Doe,30'']
               \<lparr>good = [], bad = [''5,45,Charlie Brown''], bad_history = []\<rparr>))
     = [''5,45,Charlie Brown'']
   \<and> fst (run split_comma schema (Some (GoodWriteFails [])) [''1,John Doe,30'']
               \<lparr>good = [], bad = [''5,45,Charlie Brown''], bad_history = []\<rparr>)
     = StoreError"
  using C4_failed_write_effects [of split_comma schema "[]" "[''1,John Doe,30'']"
      "\<lparr>good = [], bad = [''5,45,Charlie Brown''], bad_history = []\<rparr>"]
  by simp

text \<open>
  C4 as stated fails: with an empty valid output and the pending set
  \<open>["5,45,Charlie Brown"]\<close> before the run, a run on the new line \<open>1,John Doe,30\<close> whose
  write of the quarantine output fails (and leaves the pending set as it was) ends with a
  store error, and the row \<open>(1, John Doe, 30)\<close> is in the valid output.
\<close>

theorem C4_valid_written_before_fault_counterexample:
  "fst (run split_comma schema (Some (BadWriteFails [''5,45,Charlie Brown'']))
          [''1,John Doe,30'']
          \<lparr>good = [], bad = [''5,45,Charlie Brown''], bad_history = []\<rparr>)
     = StoreError
   \<and> snd (run split_comma schema (Some (BadWriteFails [''5,45,Charlie Brown'']))
          [''1,John Doe,30'']
          \<lparr>good = [], bad = [''5,45,Charlie Brown''], bad_history = []\<rparr>)
     = \<lparr>good = [[Some (IntV 1), Some (StrV ''John Doe''), Some (IntV 30)]],
        bad = [''5,45,Charlie Brown''], bad_history = []\<rparr>"
  using valid_john not_valid_charlie cols_john
  by (simp add: run_def Let_def write_results_def combined_df_csv valid_csv)

text \<open>
  C5. The two filters of a decoded batch select disjoint sets of rows, and after a run
  the valid output is decoded from the lines \<open>V\<close>, the pending set is the lines \<open>I\<close>, and
  no input line is in both.
\<close>

theorem C5_valid_and_pending_disjoint:
  "set (filter isNull df) \<inter> set (filter isNotNull df) = {}
   \<and> good (snd (run tok sch None new st))
       = map (\<lambda>l. cols (parse tok (as_nullable sch) l))
           (filter (valid_line tok sch) (new @ bad st))
   \<and> bad (snd (run tok sch None new st)) = filter (corrupt_line tok sch) (new @ bad st)
   \<and> set (filter (valid_line tok sch) (new @ bad st))
       \<inter> set (filter (corrupt_line tok sch) (new @ bad st)) = {}"
  by (auto simp: run_ok isNull_iff valid_not_corrupt)

theorem C5_valid_and_pending_disjoint_witness:
  "good (snd (run split_comma schema None [''1,John Doe,30'']
            \<lparr>good = [], bad = [''5,45,Charlie Brown''], bad_history = []\<rparr>))
     = [[Some (IntV 1), Some (StrV ''John Doe''), Some (IntV 30)]]
   \<and> bad (snd (run split_comma schema None [''1,John Doe,30'']
            \<lparr>good = [], bad = [''5,45,Charlie Brown''], bad_history = []\<rparr>))
     = [''5,45,Charlie Brown'']
   \<and> set [''1,John Doe,30''] \<inter> set [''5,45,Charlie Brown''] = {}"
  using C5_valid_and_pending_disjoint [of "[]" split_comma schema "[''1,John Doe,30'']"
      "\<lparr>good = [], bad = [''5,45,Charlie Brown''], bad_history = []\<rparr>"]
    corrupt_charlie not_valid_charlie valid_john not_corrupt_john cols_john
  by simp

text \<open>
  C6 (as the code has it). With the pending set \<open>["5,45,Charlie Brown"]\<close>, no new input
  and the schema of the notebook, a run leaves the pending set equal to
  \<open>["5,45,Charlie Brown"]\<close> and its Valid output is empty. A pending entry is the raw line
  and nothing more; no attempt count is kept.
\<close>

theorem C6_shifted_record_stays_pending:
  "bad (notebook [] \<lparr>good = g, bad = [''5,45,Charlie Brown''], bad_history = h\<rparr>)
     = [''5,45,Charlie Brown'']
   \<and> good (notebook [] \<lparr>good = g, bad = [''5,45,Charlie Brown''], bad_history = h\<rparr>) = []"
  using corrupt_charlie not_valid_charlie by (simp add: notebook_def run_ok)

theorem C6_shifted_record_stays_pending_witness:
  "bad (notebook [] \<lparr>good = [], bad = previous_invalid_rdd, bad_history = []\<rparr>)
     = [''5,45,Charlie Brown'']
   \<and> good (notebook [] \<lparr>good = [], bad = previous_invalid_rdd, bad_history = []\<rparr>) = []"
  using C6_shifted_record_stays_pending [of "[]" "[]"]
  by (simp add: previous_invalid_rdd_def)

text \<open>
  C6 as stated fails: the whole persisted state after the run is the state before it,
  so nothing that is stored with the pending entry has been incremented.
\<close>

theorem C6_no_attempt_count_counterexample:
  "notebook [] \<lparr>good = [], bad = [''5,45,Charlie Brown''], bad_history = []\<rparr>
     = \<lparr>good = [], bad = [''5,45,Charlie Brown''], bad_history = []\<rparr>"
  using corrupt_charlie not_valid_charlie by (simp add: notebook_def run_ok)




text \<open>
  C8 (as the code has it). No run writes the history dataset: the append to
  \<open>bad_history\<close> is a comment of the last cell. The history is therefore the same after
  every run, with or without a storage fault; it never shrinks, and nothing is archived.
\<close>

theorem C8_history_untouched:
  "bad_history (snd (run tok sch flt new st)) = bad_history st"
  by (simp add: run_def Let_def write_results_def split: option.splits fault.splits)

theorem C8_history_untouched_witness:
  "bad_history (snd (run split_comma schema None [''4,Alice Johnson,twenty'']
      \<lparr>good = [], bad = [''5,45,Charlie Brown''], bad_history = [''0,old,entry'']\<rparr>))
     = [''0,old,entry'']"
  using C8_history_untouched [of split_comma schema None "[''4,Alice Johnson,twenty'']"
      "\<lparr>good = [], bad = [''5,45,Charlie Brown''], bad_history = [''0,old,entry'']\<rparr>"]
  by simp

text \<open>
  C8 as stated fails: a run that finds the pending line \<open>5,45,Charlie Brown\<close> and the
  new corrupt line \<open>4,Alice Johnson,twenty\<close> commits both to the pending set and archives
  neither; the history is as empty as before.
\<close>

theorem C8_nothing_archived_counterexample:
  "bad (notebook [''4,Alice Johnson,twenty'']
          \<lparr>good = [], bad = [''5,45,Charlie Brown''], bad_history = []\<rparr>)
     = [''4,Alice Johnson,twenty'', ''5,45,Charlie Brown'']
   \<and> bad_history (notebook [''4,Alice Johnson,twenty'']
          \<lparr>good = [], bad = [''5,45,Charlie Brown''], bad_history = []\<rparr>)
     = []"
  using corrupt_alice corrupt_charlie by (simp add: notebook_def run_ok)

text \<open>
  C9. A line that is Corrupt under the schema and pending, once its text is corrected
  so that it decodes as Valid under the same schema, is in the Valid output of the next
  run and not in the pending set that run leaves; the old text is pending afterwards only
  if another input record of that run carries it.
\<close>

theorem C9_corrected_record_rescued:
  assumes "corrupt_line tok sch l"
    and "i < length (bad st)" and "bad st ! i = l"
    and "valid_line tok sch l'"
  shows "cols (parse tok (as_nullable sch) l')
           \<in> set (good (snd (run tok sch None new (st\<lparr>bad := (bad st)[i := l']\<rparr>))))
         \<and> l' \<notin> set (bad (snd (run tok sch None new (st\<lparr>bad := (bad st)[i := l']\<rparr>))))
         \<and> (l \<notin> set new \<and> l \<notin> set ((bad st)[i := l'])
            \<longrightarrow> l \<notin> set (bad (snd (run tok sch None new (st\<lparr>bad := (bad st)[i := l']\<rparr>)))))"
proof -
  from assms(2) have "l' \<in> set ((bad st)[i := l'])"
    by (simp add: set_update_memI)
  with assms(4) have "l' \<in> set (filter (valid_line tok sch) (new @ (bad st)[i := l']))"
    by simp
  then have "cols (parse tok (as_nullable sch) l')
      \<in> (\<lambda>l. cols (parse tok (as_nullable sch) l))
          ` set (filter (valid_line tok sch) (new @ (bad st)[i := l']))"
    by (rule imageI)
  moreover from assms(4) have "\<not> corrupt_line tok sch l'"
    by (rule valid_not_corrupt)
  ultimately show ?thesis
    by (auto simp: run_ok)
qed

theorem C9_corrected_record_rescued_witness:
  "corrupt_line split_comma schema ''5,45,Charlie Brown''
   \<and> valid_line split_comma schema ''5,Charlie Brown,45''
   \<and> [Some (IntV 5), Some (StrV ''Charlie Brown''), Some (IntV 45)]
       \<in> set (good (snd (run split_comma schema None []
                 \<lparr>good = [], bad = [''5,Charlie Brown,45''], bad_history = []\<rparr>)))
   \<and> ''5,Charlie Brown,45''
       \<notin> set (bad (snd (run split_comma schema None []
                 \<lparr>good = [], bad = [''5,Charlie Brown,45''], bad_history = []\<rparr>)))"
  using C9_corrected_record_rescued
          [of split_comma schema "''5,45,Charlie Brown''" 0
              "\<lparr>good = [], bad = [''5,45,Charlie Brown''], bad_history = []\<rparr>"
              "''5,Charlie Brown,45''" "[]"]
        corrupt_charlie valid_charlie_fixed cols_charlie_fixed
  by simp

text \<open>
  C10. The two filter predicates are complements, every row of a decoded batch is kept
  by one of the filters, and the valid and the corrupt rows together are as many as the
  rows of the batch.
\<close>

theorem C10_classification_exhaustive:
  "(\<forall>r. isNotNull r = (\<not> isNull r))
   \<and> (\<forall>r \<in> set df. r \<in> set (filter isNull df) \<or> r \<in> set (filter isNotNull df))
   \<and> length (valid_df df) + length (invalid_df df) = length df"
proof -
  have "length (filter isNull df) + length (filter isNotNull df) = length df"
    by (induction df) (simp_all add: isNull_iff)
  then show ?thesis by (auto simp: valid_df_def invalid_df_def isNull_iff)
qed

theorem C10_classification_exhaustive_witness:
  "length (valid_df (combined_df split_comma schema new_data_rdd previous_invalid_rdd))
   + length (invalid_df (combined_df split_comma schema new_data_rdd previous_invalid_rdd))
   = 5"
proof -
  have "length (combined_df split_comma schema new_data_rdd previous_invalid_rdd) = 5"
    by code_simp
  with C10_classification_exhaustive
         [of "combined_df split_comma schema new_data_rdd previous_invalid_rdd"]
  show ?thesis by simp
qed

end
